theory Spec2Isabelle
  imports Main "HOL-Library.Word"
begin

section \<open>Go values shared by \<^verbatim>\<open>tracks.go\<close> and \<^verbatim>\<open>user.go\<close>\<close>

text \<open>
  A Go \<^verbatim>\<open>string\<close> is a sequence of bytes: \<^typ>\<open>string\<close>. A \<^verbatim>\<open>uint64\<close> is a 64-bit
  word, whose \<open>+\<close> and \<open>*\<close> wrap around as Go's do. A Go function that returns
  \<^verbatim>\<open>(value, error)\<close> returns a pair here, the error being \<open>None\<close> for \<^verbatim>\<open>nil\<close>.
\<close>

type_synonym uint64 = "64 word"

text \<open>
  The errors of \<^verbatim>\<open>fmt.Sscan\<close>: the input ended before an operand was read
  (\<^verbatim>\<open>io.EOF\<close> or \<^verbatim>\<open>io.ErrUnexpectedEOF\<close>), no digit where a number must start
  ("expected integer"), and the two errors of \<^verbatim>\<open>strconv.ParseUint\<close>, each with the
  token it refused.
\<close>

datatype scan_error = OutOfInput | ExpectedInteger | ErrSyntax string | ErrRange string

text \<open>
  Every error value the two files can return. The transport's and the JSON decoder's
  errors are opaque here (a description); \<open>ErrorsNew\<close> is a value made by
  \<^verbatim>\<open>errors.New\<close> in this package, which no other call can return; \<open>TimeParseError\<close>
  is \<^verbatim>\<open>*time.ParseError\<close> with its layout and its value.
\<close>

datatype error =
    TransportError string
  | JSONError string
  | ErrorsNew string
  | TimeParseError string string
  | ScanError scan_error

text \<open>
  A call either returns or panics: \<^verbatim>\<open>*data\<close> with \<^verbatim>\<open>data == nil\<close> is Go's run-time
  panic "invalid memory address or nil pointer dereference".
\<close>

datatype 'a outcome = NilDereference | Returns 'a

subsection \<open>\<^verbatim>\<open>fmt.Sprintf("%d", n)\<close>\<close>

definition digit_char :: "nat \<Rightarrow> char" where
  "digit_char d = ''0123456789'' ! d"

function decimal :: "nat \<Rightarrow> string" where
  "decimal n = (if n < 10 then [digit_char n] else decimal (n div 10) @ [digit_char (n mod 10)])"
  by pat_completeness auto
termination
  by (relation "measure id") auto

declare decimal.simps [simp del]

definition Sprintf_d :: "int \<Rightarrow> string" where
  "Sprintf_d i = (if i < 0 then CHR ''-'' # decimal (nat (- i)) else decimal (nat i))"

subsection \<open>The session\<close>

text \<open>
  Modelled from the spec: \<^verbatim>\<open>Session.apiRequest\<close> is not in the two files. It is "a
  method that, given a path string, performs an authenticated HTTP call and returns
  either a raw JSON payload (possibly absent/nil to denote "no data") or an error".
  A session is what the remote service answers to each path (\<open>respond\<close>: the pointer
  to the payload, \<open>None\<close> for \<^verbatim>\<open>nil\<close>, and the transport's error, \<open>None\<close> for
  \<^verbatim>\<open>nil\<close>) and the paths requested so far, in order (\<open>requests\<close>). The second
  argument that \<^verbatim>\<open>tracks.go\<close> passes is always \<^verbatim>\<open>nil\<close> and is left out.
\<close>

record session =
  respond :: "string \<Rightarrow> string option \<times> string option"
  requests :: "string list"

definition apiRequest ::
  "session \<Rightarrow> string \<Rightarrow> (string option \<times> string option) \<times> session" where
  "apiRequest s endpoint = (respond s endpoint, s\<lparr>requests := requests s @ [endpoint]\<rparr>)"

section \<open>\<^verbatim>\<open>fmt.Sscan\<close> into \<^verbatim>\<open>*uint64\<close> operands\<close>

text \<open>
  \<^verbatim>\<open>Track.LengthSec\<close> calls \<^verbatim>\<open>fmt.Sscan(str, &hours, &minutes, &seconds)\<close> with three
  \<^verbatim>\<open>*uint64\<close> operands. This section follows \<^verbatim>\<open>fmt/scan.go\<close> and
  \<^verbatim>\<open>strconv/atoi.go\<close> of the Go distribution (Go 1.13 and later) for that call: the
  verb is \<^verbatim>\<open>%v\<close>, newlines count as space, and the input need not be consumed whole.
  The scanner's state is the input still unread.
\<close>

definition decimalDigits :: string where "decimalDigits = ''0123456789''"
definition octalDigits :: string where "octalDigits = ''01234567''"
definition hexadecimalDigits :: string where "hexadecimalDigits = ''0123456789aAbBcCdDeEfF''"
definition binaryDigits :: string where "binaryDigits = ''01''"

text \<open>
  \<^verbatim>\<open>isSpace\<close>: the number of bytes of the rune the input starts with when that rune is
  white space (U+0009 to U+000D, U+0020, U+0085, U+00A0, U+1680, U+2000 to U+200A,
  U+2028, U+2029, U+202F, U+205F, U+3000, in UTF-8), and 0 otherwise.
\<close>

definition space_len :: "string \<Rightarrow> nat" where
  "space_len s =
     (let bs = map of_char s :: nat list in
      if bs = [] then 0
      else if hd bs = 0x20 \<or> (0x09 \<le> hd bs \<and> hd bs \<le> 0x0D) then 1
      else if take 2 bs = [0xC2, 0x85] \<or> take 2 bs = [0xC2, 0xA0] then 2
      else if take 3 bs = [0xE1, 0x9A, 0x80] \<or> take 3 bs = [0xE2, 0x81, 0x9F]
              \<or> take 3 bs = [0xE3, 0x80, 0x80] then 3
      else if 3 \<le> length bs \<and> take 2 bs = [0xE2, 0x80]
              \<and> ((0x80 \<le> bs ! 2 \<and> bs ! 2 \<le> 0x8A) \<or> bs ! 2 = 0xA8 \<or> bs ! 2 = 0xA9 \<or> bs ! 2 = 0xAF)
           then 3
      else 0)"

text \<open>\<^verbatim>\<open>ss.SkipSpace\<close>, with \<^verbatim>\<open>nlIsSpace\<close> set as \<^verbatim>\<open>Sscan\<close> sets it.\<close>

function SkipSpace :: "string \<Rightarrow> string" where
  "SkipSpace s = (if space_len s = 0 then s else SkipSpace (drop (space_len s) s))"
  by pat_completeness auto
termination
  by (relation "measure length") (auto simp: space_len_def Let_def split: if_splits)

declare SkipSpace.simps [simp del]

text \<open>\<^verbatim>\<open>ss.peek(ok)\<close>: the next rune is one of \<open>ok\<close> (all ASCII here).\<close>

definition peek :: "string \<Rightarrow> string \<Rightarrow> bool" where
  "peek ok inp = (case inp of [] \<Rightarrow> False | c # _ \<Rightarrow> c \<in> set ok)"

text \<open>
  \<^verbatim>\<open>ss.scanBasePrefix\<close>: the digits the number may hold, the token read so far, whether
  a zero was found, and the input left. A number that starts with 0 is read as octal,
  or binary, octal or hexadecimal after \<^verbatim>\<open>0b\<close>, \<^verbatim>\<open>0o\<close>, \<^verbatim>\<open>0x\<close>.
\<close>

definition scanBasePrefix :: "string \<Rightarrow> string \<times> string \<times> bool \<times> string" where
  "scanBasePrefix inp =
     (if \<not> peek ''0'' inp then (decimalDigits @ ''_'', [], False, inp)
      else let inp' = tl inp in
        if peek ''bB'' inp' then (binaryDigits @ ''_'', [CHR ''0'', hd inp'], True, tl inp')
        else if peek ''oO'' inp' then (octalDigits @ ''_'', [CHR ''0'', hd inp'], True, tl inp')
        else if peek ''xX'' inp' then (hexadecimalDigits @ ''_'', [CHR ''0'', hd inp'], True, tl inp')
        else (octalDigits @ ''_'', ''0'', True, inp'))"

text \<open>\<^verbatim>\<open>ss.scanNumber\<close>: the longest run of the given digits, after the token so far.\<close>

definition scanNumber ::
  "string \<Rightarrow> bool \<Rightarrow> string \<Rightarrow> string \<Rightarrow> scan_error + (string \<times> string)" where
  "scanNumber digits haveDigits buf inp =
     (if \<not> haveDigits \<and> inp = [] then Inl OutOfInput
      else if \<not> haveDigits \<and> \<not> peek digits inp then Inl ExpectedInteger
      else Inr (buf @ takeWhile (\<lambda>c. c \<in> set digits) inp, dropWhile (\<lambda>c. c \<in> set digits) inp))"

subsection \<open>\<^verbatim>\<open>strconv.ParseUint(tok, 0, 64)\<close>\<close>

definition maxUint64 :: nat where
  "maxUint64 = 2 ^ 64 - 1"

text \<open>
  The value of a digit or letter: \<^verbatim>\<open>c - '0'\<close> for a digit, \<^verbatim>\<open>lower(c) - 'a' + 10\<close> for a
  letter, no value for any other byte.
\<close>

definition digitVal :: "char \<Rightarrow> nat option" where
  "digitVal c =
     (let n = of_char c :: nat in
      if 48 \<le> n \<and> n \<le> 57 then Some (n - 48)
      else if 97 \<le> n \<and> n \<le> 122 then Some (n - 97 + 10)
      else if 65 \<le> n \<and> n \<le> 90 then Some (n - 65 + 10)
      else None)"

text \<open>
  The loop of \<^verbatim>\<open>ParseUint\<close> over the bytes after the base prefix, for base 0 (an
  underscore is skipped and remembered). \<open>n\<close> is below \<open>2 ^ 64\<close> throughout, so the
  two overflow tests of the source (\<^verbatim>\<open>n >= cutoff\<close>, and \<^verbatim>\<open>n1 < n\<close> after the wrapping
  addition) are the two comparisons below. \<open>False\<close> on the left is \<^verbatim>\<open>ErrSyntax\<close>,
  \<open>True\<close> is \<^verbatim>\<open>ErrRange\<close>.
\<close>

fun ParseUint_loop :: "nat \<Rightarrow> nat \<Rightarrow> bool \<Rightarrow> string \<Rightarrow> bool + (nat \<times> bool)" where
  "ParseUint_loop base n underscores [] = Inr (n, underscores)"
| "ParseUint_loop base n underscores (c # cs) =
     (if c = CHR ''_'' then ParseUint_loop base n True cs
      else case digitVal c of
        None \<Rightarrow> Inl False
      | Some d \<Rightarrow>
          if base \<le> d then Inl False
          else if maxUint64 div base + 1 \<le> n then Inl True
          else if maxUint64 < n * base + d then Inl True
          else ParseUint_loop base (n * base + d) underscores cs)"

text \<open>
  \<^verbatim>\<open>underscoreOK\<close>: an underscore stands only between digits, or between a base prefix
  and a digit. \<open>saw\<close> is the last character seen.
\<close>

datatype saw = SawStart | SawDigit | SawUnderscore | SawOther

fun underscoreOK_loop :: "bool \<Rightarrow> saw \<Rightarrow> string \<Rightarrow> bool" where
  "underscoreOK_loop hex saw [] = (saw \<noteq> SawUnderscore)"
| "underscoreOK_loop hex saw (c # cs) =
     (if c \<in> set decimalDigits \<or> (hex \<and> c \<in> set ''aAbBcCdDeEfF'') then underscoreOK_loop hex SawDigit cs
      else if c = CHR ''_'' then (if saw \<noteq> SawDigit then False else underscoreOK_loop hex SawUnderscore cs)
      else if saw = SawUnderscore then False
      else underscoreOK_loop hex SawOther cs)"

definition underscoreOK :: "string \<Rightarrow> bool" where
  "underscoreOK s0 =
     (let s = (if s0 \<noteq> [] \<and> (hd s0 = CHR ''-'' \<or> hd s0 = CHR ''+'') then tl s0 else s0) in
      if 2 \<le> length s \<and> hd s = CHR ''0'' \<and> s ! 1 \<in> set ''bBoOxX''
      then underscoreOK_loop (s ! 1 \<in> set ''xX'') SawDigit (drop 2 s)
      else underscoreOK_loop False SawStart s)"

definition ParseUint :: "string \<Rightarrow> scan_error + nat" where
  "ParseUint s0 =
     (if s0 = [] then Inl (ErrSyntax s0)
      else
        let (base, s) =
          (if hd s0 = CHR ''0'' then
             (if 3 \<le> length s0 \<and> s0 ! 1 \<in> set ''bB'' then (2, drop 2 s0)
              else if 3 \<le> length s0 \<and> s0 ! 1 \<in> set ''oO'' then (8, drop 2 s0)
              else if 3 \<le> length s0 \<and> s0 ! 1 \<in> set ''xX'' then (16, drop 2 s0)
              else (8, tl s0))
           else (10, s0))
        in case ParseUint_loop base 0 False s of
             Inl overflow \<Rightarrow> Inl (if overflow then ErrRange s0 else ErrSyntax s0)
           | Inr (n, underscores) \<Rightarrow>
               if underscores \<and> \<not> underscoreOK s0 then Inl (ErrSyntax s0) else Inr n)"

subsection \<open>\<^verbatim>\<open>ss.scanUint\<close> and \<^verbatim>\<open>Sscan\<close>\<close>

text \<open>
  One \<^verbatim>\<open>*uint64\<close> operand: skip white space, fail at the end of the input, read the
  base prefix and the number, convert the token. The result is the value and the input
  left for the next operand.
\<close>

definition scanUint :: "string \<Rightarrow> scan_error + (uint64 \<times> string)" where
  "scanUint inp =
     (let inp1 = SkipSpace inp in
      if inp1 = [] then Inl OutOfInput
      else
        let (digits, buf, haveDigits, inp2) = scanBasePrefix inp1 in
        case scanNumber digits haveDigits buf inp2 of
          Inl e \<Rightarrow> Inl e
        | Inr (tok, rest) \<Rightarrow>
            (case ParseUint tok of
               Inl e \<Rightarrow> Inl e
             | Inr n \<Rightarrow> Inr (word_of_nat n, rest)))"

text \<open>
  \<^verbatim>\<open>fmt.Sscan(str, &a, &b, &c)\<close>: the three operands in turn, the first error ending
  the scan. What follows the third operand is not read.
\<close>

definition Sscan3 :: "string \<Rightarrow> scan_error + (uint64 \<times> uint64 \<times> uint64)" where
  "Sscan3 str =
     (case scanUint str of
        Inl e \<Rightarrow> Inl e
      | Inr (a, r1) \<Rightarrow>
          (case scanUint r1 of
             Inl e \<Rightarrow> Inl e
           | Inr (b, r2) \<Rightarrow>
               (case scanUint r2 of
                  Inl e \<Rightarrow> Inl e
                | Inr (c, r3) \<Rightarrow> Inr (a, b, c))))"

text \<open>\<^verbatim>\<open>strings.Replace(s, ":", " ", -1)\<close>: every colon becomes a space.\<close>

definition Replace_colons :: "string \<Rightarrow> string" where
  "Replace_colons s = map (\<lambda>c. if c = CHR '':'' then CHR '' '' else c) s"

section \<open>\<^verbatim>\<open>tracks.go\<close>\<close>

record Album =
  Album_ID :: uint64
  Album_Title :: string
  Album_Artist :: string
  Album_DateAdded :: string
  DateReleased :: string
  LastModified :: string
  CDID :: string
  Location :: string
  ShelfLetter :: string
  ShelfNumber :: string
  Album_Format :: string
  Medium :: string
  AddingMember :: uint64
  EditingMember :: uint64
  RecordLabel :: string
  Status :: string

record Track =
  ID :: uint64
  Title :: string
  Artist :: string
  Type :: string
  Length :: string
  Intro :: uint64
  IsClean :: bool
  IsDigitised :: bool

definition LengthSec :: "Track \<Rightarrow> uint64 \<times> error option" where
  "LengthSec t =
     (case Sscan3 (Replace_colons (Length t)) of
        Inl err \<Rightarrow> (0, Some (ScanError err))
      | Inr (hours, minutes, seconds) \<Rightarrow> ((hours * 60 * 60) + (minutes * 60) + seconds, None))"

definition LengthUsec :: "Track \<Rightarrow> uint64 \<times> error option" where
  "LengthUsec t =
     (case LengthSec t of
        (secs, Some err) \<Rightarrow> (0, Some err)
      | (secs, None) \<Rightarrow> (secs * 1000000, None))"

definition IntroUsec :: "Track \<Rightarrow> uint64" where
  "IntroUsec t = Intro t * 1000000"

text \<open>
  The three requests of \<^verbatim>\<open>tracks.go\<close>. \<^verbatim>\<open>json.Unmarshal\<close> is a parameter: what it
  leaves in a fresh target and the error it returns (a description, \<open>None\<close> for
  \<^verbatim>\<open>nil\<close>). None of the three tests \<^verbatim>\<open>data\<close> against \<^verbatim>\<open>nil\<close> before \<^verbatim>\<open>*data\<close>.
\<close>

definition GetTrack ::
  "(string \<Rightarrow> Track \<times> string option) \<Rightarrow> session \<Rightarrow> uint64
     \<Rightarrow> (Track option \<times> error option) outcome \<times> session" where
  "GetTrack Unmarshal s trackid =
     (let ((data, err), s') = apiRequest s (''/track/'' @ decimal (unat trackid)) in
      case err of
        Some e \<Rightarrow> (Returns (None, Some (TransportError e)), s')
      | None \<Rightarrow>
          (case data of
             None \<Rightarrow> (NilDereference, s')
           | Some d \<Rightarrow>
               (case Unmarshal d of
                  (track, Some e) \<Rightarrow> (Returns (None, Some (JSONError e)), s')
                | (track, None) \<Rightarrow> (Returns (Some track, None), s'))))"

definition GetTrackTitle ::
  "(string \<Rightarrow> string \<times> string option) \<Rightarrow> session \<Rightarrow> uint64
     \<Rightarrow> (string \<times> error option) outcome \<times> session" where
  "GetTrackTitle Unmarshal s trackid =
     (let ((data, err), s') = apiRequest s (''/track/'' @ decimal (unat trackid) @ ''/title'') in
      case err of
        Some e \<Rightarrow> (Returns ('''', Some (TransportError e)), s')
      | None \<Rightarrow>
          (case data of
             None \<Rightarrow> (NilDereference, s')
           | Some d \<Rightarrow>
               (case Unmarshal d of
                  (title, Some e) \<Rightarrow> (Returns ('''', Some (JSONError e)), s')
                | (title, None) \<Rightarrow> (Returns (title, None), s'))))"

definition GetTrackAlbum ::
  "(string \<Rightarrow> Album \<times> string option) \<Rightarrow> session \<Rightarrow> uint64
     \<Rightarrow> (Album option \<times> error option) outcome \<times> session" where
  "GetTrackAlbum Unmarshal s trackid =
     (let ((data, err), s') = apiRequest s (''/track/'' @ decimal (unat trackid) @ ''/album'') in
      case err of
        Some e \<Rightarrow> (Returns (None, Some (TransportError e)), s')
      | None \<Rightarrow>
          (case data of
             None \<Rightarrow> (NilDereference, s')
           | Some d \<Rightarrow>
               (case Unmarshal d of
                  (album, Some e) \<Rightarrow> (Returns (None, Some (JSONError e)), s')
                | (album, None) \<Rightarrow> (Returns (Some album, None), s'))))"

definition GetAlbum ::
  "(string \<Rightarrow> Album \<times> string option) \<Rightarrow> Track \<Rightarrow> session
     \<Rightarrow> (Album option \<times> error option) outcome \<times> session" where
  "GetAlbum Unmarshal t s = GetTrackAlbum Unmarshal s (ID t)"

section \<open>\<^verbatim>\<open>time.Parse\<close> with the two layouts of \<^verbatim>\<open>user.go\<close>\<close>

text \<open>
  A \<^verbatim>\<open>time.Time\<close> as its civil date and clock in UTC (\<^verbatim>\<open>time.Parse\<close> returns UTC for
  a layout with no zone). The zero \<^verbatim>\<open>Time\<close> is January 1 of year 1, 00:00:00 UTC.
\<close>

record Time =
  Year :: nat
  Month :: nat
  Day :: nat
  Hour :: nat
  Minute :: nat
  Second :: nat
  Nanosecond :: nat

definition zero_Time :: Time where
  "zero_Time = \<lparr>Year = 1, Month = 1, Day = 1, Hour = 0, Minute = 0, Second = 0, Nanosecond = 0\<rparr>"

text \<open>
  The helpers of \<^verbatim>\<open>time/format.go\<close>. \<open>None\<close> is \<^verbatim>\<open>errBad\<close>. \<^verbatim>\<open>getnum\<close> reads one or
  two digits, two when \<open>fixed\<close>; \<^verbatim>\<open>skip\<close> removes the layout's literal text from the
  value, a space of the layout standing for a run of spaces of the value; \<open>atoi4\<close> is
  \<^verbatim>\<open>atoi\<close> on the four bytes of a year, the first a digit.
\<close>

definition isDigit :: "string \<Rightarrow> nat \<Rightarrow> bool" where
  "isDigit s i = (i < length s \<and> s ! i \<in> set decimalDigits)"

definition digit_of :: "char \<Rightarrow> nat" where
  "digit_of c = of_char c - 48"

definition getnum :: "string \<Rightarrow> bool \<Rightarrow> (nat \<times> string) option" where
  "getnum s fixed =
     (if \<not> isDigit s 0 then None
      else if \<not> isDigit s 1 then (if fixed then None else Some (digit_of (s ! 0), drop 1 s))
      else Some (digit_of (s ! 0) * 10 + digit_of (s ! 1), drop 2 s))"

definition cutspace :: "string \<Rightarrow> string" where
  "cutspace s = dropWhile (\<lambda>c. c = CHR '' '') s"

function skip :: "string \<Rightarrow> string \<Rightarrow> string option" where
  "skip v [] = Some v"
| "skip v (p # ps) =
     (if p = CHR '' '' then
        (if v \<noteq> [] \<and> hd v \<noteq> CHR '' '' then None else skip (cutspace v) (cutspace (p # ps)))
      else if v = [] \<or> hd v \<noteq> p then None
      else skip (tl v) ps)"
  by pat_completeness auto
termination
  by (relation "measure (\<lambda>(v, p). length p)")
     (auto simp: cutspace_def intro: le_imp_less_Suc length_dropWhile_le)

definition atoi4 :: "string \<Rightarrow> nat option" where
  "atoi4 p =
     (if list_all (\<lambda>c. c \<in> set decimalDigits) p
      then Some (foldl (\<lambda>n c. n * 10 + digit_of c) 0 p) else None)"

definition isLeap :: "nat \<Rightarrow> bool" where
  "isLeap y = (y mod 4 = 0 \<and> (y mod 100 \<noteq> 0 \<or> y mod 400 = 0))"

definition daysIn :: "nat \<Rightarrow> nat \<Rightarrow> nat" where
  "daysIn m y =
     (if m = 2 then (if isLeap y then 29 else 28)
      else if m = 4 \<or> m = 6 \<or> m = 9 \<or> m = 11 then 30 else 31)"

text \<open>
  Layout \<^verbatim>\<open>"2006-01-02"\<close>: a four-digit year, \<open>-\<close>, a two-digit month from 1 to 12,
  \<open>-\<close>, a two-digit day, and nothing after it; the day is then checked against the
  month and the year.
\<close>

definition parse_2006_01_02 :: "string \<Rightarrow> Time option" where
  "parse_2006_01_02 v =
     (if length v < 4 \<or> \<not> isDigit v 0 then None
      else (case atoi4 (take 4 v) of None \<Rightarrow> None | Some y \<Rightarrow>
       (case skip (drop 4 v) ''-'' of None \<Rightarrow> None | Some v1 \<Rightarrow>
        (case getnum v1 True of None \<Rightarrow> None | Some (m, v2) \<Rightarrow>
         (if m \<le> 0 \<or> 12 < m then None
          else (case skip v2 ''-'' of None \<Rightarrow> None | Some v3 \<Rightarrow>
           (case getnum v3 True of None \<Rightarrow> None | Some (d, v4) \<Rightarrow>
            (if v4 \<noteq> [] then None
             else if d < 1 \<or> daysIn m y < d then None
             else Some \<lparr>Year = y, Month = m, Day = d, Hour = 0, Minute = 0, Second = 0,
               Nanosecond = 0\<rparr>))))))))"

text \<open>
  Layout \<^verbatim>\<open>"02/01/2006 15:04"\<close>: a two-digit day, \<open>/\<close>, a two-digit month from 1 to
  12, \<open>/\<close>, a four-digit year, spaces, an hour of one or two digits below 24, \<open>:\<close>, a
  two-digit minute below 60, and nothing after it; then the check of the day.
\<close>

definition parse_02_01_2006_15_04 :: "string \<Rightarrow> Time option" where
  "parse_02_01_2006_15_04 v =
     (case getnum v True of None \<Rightarrow> None | Some (d, v1) \<Rightarrow>
      (case skip v1 ''/'' of None \<Rightarrow> None | Some v2 \<Rightarrow>
       (case getnum v2 True of None \<Rightarrow> None | Some (m, v3) \<Rightarrow>
        (if m \<le> 0 \<or> 12 < m then None
         else (case skip v3 ''/'' of None \<Rightarrow> None | Some v4 \<Rightarrow>
          (if length v4 < 4 \<or> \<not> isDigit v4 0 then None
           else (case atoi4 (take 4 v4) of None \<Rightarrow> None | Some y \<Rightarrow>
            (case skip (drop 4 v4) '' '' of None \<Rightarrow> None | Some v5 \<Rightarrow>
             (case getnum v5 False of None \<Rightarrow> None | Some (h, v6) \<Rightarrow>
              (if 24 \<le> h then None
               else (case skip v6 '':'' of None \<Rightarrow> None | Some v7 \<Rightarrow>
                (case getnum v7 True of None \<Rightarrow> None | Some (mi, v8) \<Rightarrow>
                 (if 60 \<le> mi then None
                  else if v8 \<noteq> [] then None
                  else if d < 1 \<or> daysIn m y < d then None
                  else Some \<lparr>Year = y, Month = m, Day = d, Hour = h, Minute = mi, Second = 0,
                    Nanosecond = 0\<rparr>)))))))))))))"

text \<open>
  \<^verbatim>\<open>time.Parse(layout, value)\<close> for the two layouts this package uses (no other layout
  reaches it): the time and \<^verbatim>\<open>nil\<close>, or the zero \<^verbatim>\<open>Time\<close> and a \<^verbatim>\<open>*ParseError\<close>.
\<close>

definition time_Parse :: "string \<Rightarrow> string \<Rightarrow> Time \<times> error option" where
  "time_Parse layout v =
     (case (if layout = ''2006-01-02'' then parse_2006_01_02 v else parse_02_01_2006_15_04 v) of
        None \<Rightarrow> (zero_Time, Some (TimeParseError layout v))
      | Some t \<Rightarrow> (t, None))"

section \<open>\<^verbatim>\<open>user.go\<close>\<close>

text \<open>
  The two records. \<^verbatim>\<open>uint\<close> is taken at 64 bits. \<open>FromDate\<close>, \<open>TillDate\<close> and
  \<open>DateAdded\<close> carry no JSON tag; the methods below fill them from the raw strings.
\<close>

record Officership =
  OfficerId :: uint64
  OfficerName :: string
  TeamId :: uint64
  FromDateRaw :: string
  FromDate :: Time
  TillDateRaw :: string
  TillDate :: Time

record Photo =
  PhotoId :: uint64
  DateAddedRaw :: string
  DateAdded :: Time
  Format :: string
  Owner :: uint64
  Url :: string

definition zero_Photo :: Photo where
  "zero_Photo = \<lparr>PhotoId = 0, DateAddedRaw = '''', DateAdded = zero_Time, Format = '''',
     Owner = 0, Url = ''''\<rparr>"

text \<open>
  In each method \<^verbatim>\<open>json.Unmarshal\<close> is a parameter, as in \<^verbatim>\<open>tracks.go\<close>: what it leaves
  in the zero-valued result and the error it returns. The results are named, so a bare
  \<^verbatim>\<open>return\<close> returns what they hold at that point.
\<close>

definition GetUserBio ::
  "(string \<Rightarrow> string \<times> string option) \<Rightarrow> session \<Rightarrow> int
     \<Rightarrow> (string \<times> error option) outcome \<times> session" where
  "GetUserBio Unmarshal s id' =
     (let ((data, err), s') = apiRequest s (''/user/'' @ Sprintf_d id' @ ''/bio/'') in
      case err of
        Some e \<Rightarrow> (Returns ('''', Some (TransportError e)), s')
      | None \<Rightarrow>
          (case data of
             None \<Rightarrow> (Returns ('''', Some (ErrorsNew ''No bio set'')), s')
           | Some d \<Rightarrow>
               (let (bio, err) = Unmarshal d in (Returns (bio, map_option JSONError err), s'))))"

definition GetUserName ::
  "(string \<Rightarrow> string \<times> string option) \<Rightarrow> session \<Rightarrow> int
     \<Rightarrow> (string \<times> error option) outcome \<times> session" where
  "GetUserName Unmarshal s id' =
     (let ((data, err), s') = apiRequest s (''/user/'' @ Sprintf_d id' @ ''/name/'') in
      case err of
        Some e \<Rightarrow> (Returns ('''', Some (TransportError e)), s')
      | None \<Rightarrow>
          (case data of
             None \<Rightarrow> (NilDereference, s')
           | Some d \<Rightarrow>
               (let (name, err) = Unmarshal d in (Returns (name, map_option JSONError err), s'))))"

definition GetUserProfilePhoto ::
  "(string \<Rightarrow> Photo \<times> string option) \<Rightarrow> session \<Rightarrow> int
     \<Rightarrow> (Photo \<times> error option) outcome \<times> session" where
  "GetUserProfilePhoto Unmarshal s id' =
     (let ((data, err), s') = apiRequest s (''/user/'' @ Sprintf_d id' @ ''/profilephoto/'') in
      case err of
        Some e \<Rightarrow> (Returns (zero_Photo, Some (TransportError e)), s')
      | None \<Rightarrow>
          (case data of
             None \<Rightarrow> (Returns (zero_Photo, Some (ErrorsNew ''No profile picture set'')), s')
           | Some d \<Rightarrow>
               (case Unmarshal d of
                  (profilephoto, Some e) \<Rightarrow> (Returns (profilephoto, Some (JSONError e)), s')
                | (profilephoto, None) \<Rightarrow>
                    (let (t, err) = time_Parse ''02/01/2006 15:04'' (DateAddedRaw profilephoto)
                     in (Returns (profilephoto\<lparr>DateAdded := t\<rparr>, err), s')))))"

text \<open>
  The body of the loop of \<^verbatim>\<open>GetUserOfficerships\<close> at index \<open>k\<close>, with \<open>v\<close> the copy of
  the element that \<^verbatim>\<open>range\<close> makes: the slice after the body and the error it returned
  with, \<open>None\<close> when it ran to its end. Both calls of \<^verbatim>\<open>time.Parse\<close> are given
  \<^verbatim>\<open>v.FromDateRaw\<close>, as lines 79 and 85 of the source have it.
\<close>

definition officership_body :: "nat \<Rightarrow> Officership list \<Rightarrow> Officership list \<times> error option" where
  "officership_body k officerships =
     (let v = officerships ! k in
      case (if FromDateRaw (officerships ! k) \<noteq> ''''
            then (let (t, err) = time_Parse ''2006-01-02'' (FromDateRaw v)
                  in (officerships[k := (officerships ! k)\<lparr>FromDate := t\<rparr>], err))
            else (officerships, None)) of
        (os1, Some e) \<Rightarrow> (os1, Some e)
      | (os1, None) \<Rightarrow>
          (if TillDateRaw (os1 ! k) \<noteq> ''''
           then (let (t, err) = time_Parse ''2006-01-02'' (FromDateRaw v)
                 in (os1[k := (os1 ! k)\<lparr>TillDate := t\<rparr>], err))
           else (os1, None)))"

text \<open>
  \<^verbatim>\<open>for k, v := range officerships\<close> from index \<open>k\<close> on; \<open>n\<close> is the length of the
  slice, which \<^verbatim>\<open>range\<close> reads once.
\<close>

function officerships_range ::
  "nat \<Rightarrow> nat \<Rightarrow> Officership list \<Rightarrow> Officership list \<times> error option" where
  "officerships_range k n officerships =
     (if k < n then
        (case officership_body k officerships of
           (os', Some e) \<Rightarrow> (os', Some e)
         | (os', None) \<Rightarrow> officerships_range (Suc k) n os')
      else (officerships, None))"
  by pat_completeness auto
termination
  by (relation "measure (\<lambda>(k, n, officerships). n - k)") auto

declare officerships_range.simps [simp del]

definition GetUserOfficerships ::
  "(string \<Rightarrow> Officership list \<times> string option) \<Rightarrow> session \<Rightarrow> int
     \<Rightarrow> (Officership list \<times> error option) outcome \<times> session" where
  "GetUserOfficerships Unmarshal s id' =
     (let ((data, err), s') = apiRequest s (''/user/'' @ Sprintf_d id' @ ''/officerships/'') in
      case err of
        Some e \<Rightarrow> (Returns ([], Some (TransportError e)), s')
      | None \<Rightarrow>
          (case data of
             None \<Rightarrow> (NilDereference, s')
           | Some d \<Rightarrow>
               (case Unmarshal d of
                  (officerships, Some e) \<Rightarrow> (Returns (officerships, Some (JSONError e)), s')
                | (officerships, None) \<Rightarrow>
                    (Returns (officerships_range 0 (length officerships) officerships), s'))))"

text \<open>\<^verbatim>\<open>ShowMeta\<close> is declared elsewhere in the package; its values stay abstract.\<close>

definition GetUserShowCredits ::
  "(string \<Rightarrow> 'showmeta list \<times> string option) \<Rightarrow> session \<Rightarrow> int
     \<Rightarrow> ('showmeta list \<times> error option) outcome \<times> session" where
  "GetUserShowCredits Unmarshal s id' =
     (let ((data, err), s') = apiRequest s (''/user/'' @ Sprintf_d id' @ ''/shows/'') in
      case err of
        Some e \<Rightarrow> (Returns ([], Some (TransportError e)), s')
      | None \<Rightarrow>
          (case data of
             None \<Rightarrow> (NilDereference, s')
           | Some d \<Rightarrow>
               (let (shows, err) = Unmarshal d in (Returns (shows, map_option JSONError err), s'))))"

section \<open>The loop of \<^verbatim>\<open>GetUserOfficerships\<close>, entry by entry\<close>

text \<open>
  What the body of the loop does to one entry, read off \<open>officership_body\<close>: the error it
  returns with (\<open>entry_error\<close>: a parse runs when either raw string is non-empty, and it
  is always a parse of \<open>FromDateRaw\<close>), the entry it leaves when it runs to its end
  (\<open>normalised\<close>) and the entry it leaves when it returns with an error (\<open>failed\<close>:
  \<^verbatim>\<open>time.Parse\<close> has stored the zero \<^verbatim>\<open>Time\<close> in the field being assigned).
\<close>

definition entry_error :: "Officership \<Rightarrow> error option" where
  "entry_error v =
     (if FromDateRaw v \<noteq> '''' \<or> TillDateRaw v \<noteq> ''''
      then snd (time_Parse ''2006-01-02'' (FromDateRaw v)) else None)"

definition normalised :: "Officership \<Rightarrow> Officership" where
  "normalised v = v
     \<lparr>FromDate := (if FromDateRaw v = '''' then FromDate v
                   else fst (time_Parse ''2006-01-02'' (FromDateRaw v))),
      TillDate := (if TillDateRaw v = '''' then TillDate v
                   else fst (time_Parse ''2006-01-02'' (FromDateRaw v)))\<rparr>"

definition failed :: "Officership \<Rightarrow> Officership" where
  "failed v = (if FromDateRaw v \<noteq> '''' then v\<lparr>FromDate := zero_Time\<rparr> else v\<lparr>TillDate := zero_Time\<rparr>)"

text \<open>The loop over a whole slice, as a recursion on the list.\<close>

fun normalise_all :: "Officership list \<Rightarrow> Officership list \<times> error option" where
  "normalise_all [] = ([], None)"
| "normalise_all (v # vs) =
     (case entry_error v of
        Some e \<Rightarrow> (failed v # vs, Some e)
      | None \<Rightarrow> (normalised v # fst (normalise_all vs), snd (normalise_all vs)))"

section \<open>Lengths written as decimal fields\<close>

text \<open>
  The value of a string of decimal digits, and the fields of a length
  \<open>hours:minutes:seconds\<close> that \<^verbatim>\<open>fmt.Sscan\<close> reads as that value: a non-empty string of
  decimal digits which, when it starts with 0, is zeros followed by one last digit from 0
  to 7 (\<open>0\<close>, \<open>00\<close>, \<open>07\<close>, \<open>002\<close>; not \<open>08\<close>, \<open>09\<close> or \<open>010\<close>).
\<close>

definition decimal_value :: "string \<Rightarrow> nat" where
  "decimal_value ds = foldl (\<lambda>n c. n * 10 + digit_of c) 0 ds"

definition plain_field :: "string \<Rightarrow> bool" where
  "plain_field ds =
     (ds \<noteq> [] \<and> list_all (\<lambda>c. c \<in> set decimalDigits) ds
      \<and> (if hd ds = CHR ''0''
          then list_all (\<lambda>c. c = CHR ''0'') (butlast ds) \<and> last ds \<in> set octalDigits
          else True))"

section \<open>Example values\<close>

text \<open>Records with the fields the examples vary; every other field has its zero value.\<close>

definition track_with :: "string \<Rightarrow> uint64 \<Rightarrow> Track" where
  "track_with len intro = \<lparr>ID = 0, Title = '''', Artist = '''', Type = '''', Length = len,
     Intro = intro, IsClean = False, IsDigitised = False\<rparr>"

definition zero_Album :: Album where
  "zero_Album = \<lparr>Album_ID = 0, Album_Title = '''', Album_Artist = '''', Album_DateAdded = '''',
     DateReleased = '''', LastModified = '''', CDID = '''', Location = '''', ShelfLetter = '''',
     ShelfNumber = '''', Album_Format = '''', Medium = '''', AddingMember = 0, EditingMember = 0,
     RecordLabel = '''', Status = ''''\<rparr>"

definition officership_with :: "string \<Rightarrow> string \<Rightarrow> Officership" where
  "officership_with from till = \<lparr>OfficerId = 0, OfficerName = '''', TeamId = 0,
     FromDateRaw = from, FromDate = zero_Time, TillDateRaw = till, TillDate = zero_Time\<rparr>"

definition photo_with :: "string \<Rightarrow> Photo" where
  "photo_with added = zero_Photo\<lparr>DateAddedRaw := added\<rparr>"

definition date :: "nat \<Rightarrow> nat \<Rightarrow> nat \<Rightarrow> Time" where
  "date y m d = \<lparr>Year = y, Month = m, Day = d, Hour = 0, Minute = 0, Second = 0, Nanosecond = 0\<rparr>"

text \<open>A session that gives every path the same answer, with no request made yet.\<close>

definition answering :: "string option \<times> string option \<Rightarrow> session" where
  "answering r = \<lparr>respond = (\<lambda>endpoint. r), requests = []\<rparr>"

text \<open>The JSON text of the empty string: two double quotes.\<close>

definition json_empty_string :: string where
  "json_empty_string = [CHR 0x22, CHR 0x22]"

section \<open>Properties of \<^verbatim>\<open>tracks.go\<close>\<close>

subsection \<open>Evaluations of \<^verbatim>\<open>LengthSec\<close>\<close>

text \<open>The equations that evaluate a scan of a given string.\<close>

lemmas scan_eval = LengthSec_def Replace_colons_def Sscan3_def scanUint_def SkipSpace.simps
  space_len_def scanBasePrefix_def peek_def scanNumber_def ParseUint_def digitVal_def
  maxUint64_def decimalDigits_def octalDigits_def hexadecimalDigits_def binaryDigits_def
  underscoreOK_def track_with_def

lemma LengthSec_example_1_02_03: "LengthSec (track_with ''1:02:03'' 0) = (3723, None)"
  by (simp add: scan_eval)

lemma LengthSec_example_abc:
  "LengthSec (track_with ''abc'' 0) = (0, Some (ScanError ExpectedInteger))"
  by (simp add: scan_eval)

lemma LengthSec_example_1_02:
  "LengthSec (track_with ''1:02'' 0) = (0, Some (ScanError OutOfInput))"
  by (simp add: scan_eval)

lemma LengthSec_example_huge:
  "LengthSec (track_with ''0:0:18446744073710'' 0) = (18446744073710, None)"
  by (simp add: scan_eval)

subsection \<open>\<^verbatim>\<open>LengthSec\<close> on decimal fields\<close>

lemma digit_cases:
  "c \<in> set decimalDigits \<Longrightarrow> digitVal c = Some (digit_of c) \<and> digit_of c < 10 \<and> space_len (c # cs) = 0
     \<and> c \<noteq> CHR '':'' \<and> c \<noteq> CHR '' '' \<and> c \<noteq> CHR ''_''"
  by (auto simp: decimalDigits_def digitVal_def digit_of_def space_len_def)

lemma octal_cases:
  "c \<in> set octalDigits \<Longrightarrow> c \<in> set decimalDigits \<and> digit_of c < 8"
  by (auto simp: decimalDigits_def octalDigits_def digit_of_def)

lemma foldl_value_mono: "n \<le> foldl (\<lambda>n c. n * 10 + digit_of c) n ds"
proof (induction ds arbitrary: n)
  case Nil
  show ?case by simp
next
  case (Cons c ds)
  have "n \<le> n * 10 + digit_of c" by simp
  also have "\<dots> \<le> foldl (\<lambda>n c. n * 10 + digit_of c) (n * 10 + digit_of c) ds" by (rule Cons.IH)
  finally show ?case by simp
qed

lemma ParseUint_loop_decimal:
  "list_all (\<lambda>c. c \<in> set decimalDigits) ds
   \<Longrightarrow> foldl (\<lambda>n c. n * 10 + digit_of c) n ds \<le> maxUint64
   \<Longrightarrow> ParseUint_loop 10 n False ds = Inr (foldl (\<lambda>n c. n * 10 + digit_of c) n ds, False)"
proof (induction ds arbitrary: n)
  case Nil
  show ?case by simp
next
  case (Cons c ds)
  from Cons.prems(1) have c: "digitVal c = Some (digit_of c)" "digit_of c < 10" "c \<noteq> CHR ''_''"
    using digit_cases [of c] by simp_all
  have "n * 10 + digit_of c \<le> foldl (\<lambda>n c. n * 10 + digit_of c) (n * 10 + digit_of c) ds"
    by (rule foldl_value_mono)
  with Cons.prems(2) have le: "n * 10 + digit_of c \<le> maxUint64" by simp
  then have "n \<le> maxUint64 div 10" by simp
  with le c Cons show ?case by simp
qed

lemma ParseUint_loop_zeros:
  "list_all (\<lambda>c. c = CHR ''0'') zs \<Longrightarrow> ParseUint_loop 8 0 False zs = Inr (0, False)"
  by (induction zs) (simp_all add: digitVal_def maxUint64_def)

lemma ParseUint_loop_zeros_digit:
  "list_all (\<lambda>c. c = CHR ''0'') zs \<Longrightarrow> c \<in> set octalDigits
   \<Longrightarrow> ParseUint_loop 8 0 False (zs @ [c]) = Inr (digit_of c, False)"
proof (induction zs)
  case Nil
  then show ?case
    using octal_cases [of c] digit_cases [of c] by (simp add: maxUint64_def)
next
  case (Cons z zs)
  then show ?case by (simp add: digitVal_def maxUint64_def)
qed

lemma decimal_value_zeros_digit:
  "list_all (\<lambda>c. c = CHR ''0'') zs \<Longrightarrow> foldl (\<lambda>n c. n * 10 + digit_of c) 0 (zs @ [c]) = digit_of c"
  by (induction zs) (simp_all add: digit_of_def)


lemma takeWhile_field:
  "list_all P ds \<Longrightarrow> rest = [] \<or> \<not> P (hd rest)
   \<Longrightarrow> takeWhile P (ds @ rest) = ds \<and> dropWhile P (ds @ rest) = rest"
  by (induction ds) (cases rest; auto)+

lemma ParseUint_plain:
  assumes "plain_field ds" and "decimal_value ds \<le> maxUint64"
  shows "ParseUint ds = Inr (decimal_value ds)"
proof (cases "hd ds = CHR ''0''")
  case False
  with assms show ?thesis
    using ParseUint_loop_decimal [of ds 0]
    by (simp add: plain_field_def ParseUint_def decimal_value_def)
next
  case True
  from assms(1) obtain ds' where ds: "ds = CHR ''0'' # ds'"
    using True by (cases ds) (auto simp: plain_field_def)
  show ?thesis
  proof (cases "ds' = []")
    case True
    with ds show ?thesis
      by (simp add: ParseUint_def decimal_value_def digit_of_def)
  next
    case False
    then obtain zs c where ds': "ds' = zs @ [c]"
      by (metis append_butlast_last_id)
    from assms(1) ds ds' have z: "list_all (\<lambda>c. c = CHR ''0'') zs" "c \<in> set octalDigits"
      by (simp_all add: plain_field_def butlast_append)
    have second: "(zs @ [c]) ! 0 \<in> set decimalDigits"
      using z octal_cases [of c] by (cases zs) (auto simp: decimalDigits_def)
    then have no_prefix: "(zs @ [c]) ! 0 \<notin> set ''bB'' \<and> (zs @ [c]) ! 0 \<notin> set ''oO''
        \<and> (zs @ [c]) ! 0 \<notin> set ''xX''"
      by (auto simp: decimalDigits_def)
    have v: "decimal_value ds = digit_of c"
      using decimal_value_zeros_digit [of "CHR ''0'' # zs" c] z ds ds'
      by (simp add: decimal_value_def)
    show ?thesis
      using ParseUint_loop_zeros_digit [OF z] no_prefix v ds ds'
      by (simp add: ParseUint_def)
  qed
qed

lemma SkipSpace_digit: "c \<in> set decimalDigits \<Longrightarrow> SkipSpace (c # cs) = c # cs"
  using digit_cases [of c cs] by (simp add: SkipSpace.simps)

lemma SkipSpace_space: "SkipSpace (CHR '' '' # cs) = SkipSpace cs"
  by (subst SkipSpace.simps) (simp add: space_len_def)

lemma scanUint_space: "scanUint (CHR '' '' # cs) = scanUint cs"
  by (simp add: scanUint_def SkipSpace_space)

lemma scanUint_plain:
  assumes "plain_field ds" and "decimal_value ds \<le> maxUint64"
    and "rest = [] \<or> hd rest = CHR '' ''"
  shows "scanUint (ds @ rest) = Inr (word_of_nat (decimal_value ds), rest)"
proof -
  from assms(1) obtain c cs where ds: "ds = c # cs" "c \<in> set decimalDigits"
    "list_all (\<lambda>c. c \<in> set decimalDigits) cs"
    by (cases ds) (auto simp: plain_field_def)
  have skip: "SkipSpace (ds @ rest) = ds @ rest"
    using ds SkipSpace_digit [of c "cs @ rest"] by simp
  show ?thesis
  proof (cases "c = CHR ''0''")
    case False
    have "rest = [] \<or> hd rest \<notin> set (decimalDigits @ ''_'')"
      using assms(3) by (auto simp: decimalDigits_def)
    moreover have "list_all (\<lambda>c. c \<in> set (decimalDigits @ ''_'')) ds"
      using ds by (auto simp: list_all_iff)
    ultimately have tw: "takeWhile (\<lambda>c. c \<in> set (decimalDigits @ ''_'')) (ds @ rest) = ds"
      "dropWhile (\<lambda>c. c \<in> set (decimalDigits @ ''_'')) (ds @ rest) = rest"
      using takeWhile_field [of "\<lambda>c. c \<in> set (decimalDigits @ ''_'')" ds rest] by simp_all
    have "scanBasePrefix (ds @ rest) = (decimalDigits @ ''_'', [], False, ds @ rest)"
      using False ds by (simp add: scanBasePrefix_def peek_def)
    moreover have "scanNumber (decimalDigits @ ''_'') False [] (ds @ rest) = Inr (ds, rest)"
      using tw ds by (simp add: scanNumber_def peek_def)
    ultimately show ?thesis
      using skip ParseUint_plain [OF assms(1,2)] ds by (simp add: scanUint_def)
  next
    case True
    have oct: "list_all (\<lambda>c. c \<in> set (octalDigits @ ''_'')) cs"
    proof (cases "cs = []")
      case True
      then show ?thesis by simp
    next
      case False
      then obtain zs c' where cs: "cs = zs @ [c']"
        by (metis append_butlast_last_id)
      with assms(1) ds True
      have "list_all (\<lambda>c. c = CHR ''0'') zs" "c' \<in> set octalDigits"
        by (simp_all add: plain_field_def butlast_append)
      with cs show ?thesis
        by (auto simp: list_all_iff octalDigits_def)
    qed
    have "rest = [] \<or> hd rest \<notin> set (octalDigits @ ''_'')"
      using assms(3) by (auto simp: octalDigits_def)
    with oct have tw: "takeWhile (\<lambda>c. c \<in> set (octalDigits @ ''_'')) (cs @ rest) = cs"
      "dropWhile (\<lambda>c. c \<in> set (octalDigits @ ''_'')) (cs @ rest) = rest"
      using takeWhile_field [of "\<lambda>c. c \<in> set (octalDigits @ ''_'')" cs rest] by simp_all
    have nxt: "\<not> peek ''bB'' (cs @ rest) \<and> \<not> peek ''oO'' (cs @ rest) \<and> \<not> peek ''xX'' (cs @ rest)"
    proof (cases cs)
      case Nil
      with assms(3) show ?thesis by (cases rest) (auto simp: peek_def)
    next
      case (Cons d ds')
      with ds(3) show ?thesis by (auto simp: peek_def decimalDigits_def)
    qed
    have "scanBasePrefix (ds @ rest) = (octalDigits @ ''_'', ''0'', True, cs @ rest)"
      using True ds nxt by (simp add: scanBasePrefix_def peek_def)
    moreover have "scanNumber (octalDigits @ ''_'') True ''0'' (cs @ rest) = Inr (ds, rest)"
      using tw ds True by (simp add: scanNumber_def)
    ultimately show ?thesis
      using skip ParseUint_plain [OF assms(1,2)] ds by (simp add: scanUint_def)
  qed
qed


lemma Replace_colons_digits:
  "list_all (\<lambda>c. c \<in> set decimalDigits) ds \<Longrightarrow> Replace_colons ds = ds"
  by (induction ds) (auto simp: Replace_colons_def decimalDigits_def)

lemma Replace_colons_field: "plain_field ds \<Longrightarrow> Replace_colons ds = ds"
  by (simp add: plain_field_def Replace_colons_digits)

lemma Replace_colons_append: "Replace_colons (a @ b) = Replace_colons a @ Replace_colons b"
  by (simp add: Replace_colons_def)

lemma Replace_colons_rest:
  "rest = [] \<or> hd rest = CHR '':''
   \<Longrightarrow> Replace_colons rest = [] \<or> hd (Replace_colons rest) = CHR '' ''"
  by (cases rest) (simp_all add: Replace_colons_def)

lemma Replace_colons_fields:
  assumes "plain_field H" "plain_field M" "plain_field S"
  shows "Replace_colons (H @ '':'' @ M @ '':'' @ S @ rest)
      = H @ (CHR '' '' # (M @ (CHR '' '' # (S @ Replace_colons rest))))"
proof -
  have c: "Replace_colons (CHR '':'' # b) = CHR '' '' # Replace_colons b" for b
    by (simp add: Replace_colons_def)
  show ?thesis
    by (simp only: Replace_colons_append Replace_colons_field [OF assms(1)]
        Replace_colons_field [OF assms(2)] Replace_colons_field [OF assms(3)] c append_Cons
        append_Nil)
qed

lemma Sscan3_fields:
  assumes "plain_field H" "plain_field M" "plain_field S"
    and "decimal_value H \<le> maxUint64" "decimal_value M \<le> maxUint64" "decimal_value S \<le> maxUint64"
    and "rest = [] \<or> hd rest = CHR '':''"
  shows "Sscan3 (Replace_colons (H @ '':'' @ M @ '':'' @ S @ rest))
    = Inr (word_of_nat (decimal_value H), word_of_nat (decimal_value M), word_of_nat (decimal_value S))"
proof -
  let ?R = "Replace_colons rest"
  have r: "?R = [] \<or> hd ?R = CHR '' ''"
    using assms(7) by (rule Replace_colons_rest)
  have 1: "scanUint (H @ (CHR '' '' # (M @ (CHR '' '' # (S @ ?R)))))
      = Inr (word_of_nat (decimal_value H), CHR '' '' # (M @ (CHR '' '' # (S @ ?R))))"
    by (rule scanUint_plain [OF assms(1,4)]) simp
  have 2: "scanUint (M @ (CHR '' '' # (S @ ?R)))
      = Inr (word_of_nat (decimal_value M), CHR '' '' # (S @ ?R))"
    by (rule scanUint_plain [OF assms(2,5)]) simp
  have 3: "scanUint (S @ ?R) = Inr (word_of_nat (decimal_value S), ?R)"
    by (rule scanUint_plain [OF assms(3,6) r])
  show ?thesis
    by (simp only: Replace_colons_fields [OF assms(1-3)] Sscan3_def 1 2 3 scanUint_space
        sum.case prod.case)
qed

lemma LengthSec_fields:
  assumes "plain_field H" "plain_field M" "plain_field S"
    and "decimal_value H \<le> maxUint64" "decimal_value M \<le> maxUint64" "decimal_value S \<le> maxUint64"
    and "rest = [] \<or> hd rest = CHR '':''"
    and "Length t = H @ '':'' @ M @ '':'' @ S @ rest"
  shows "LengthSec t
    = (word_of_nat (decimal_value H * 3600 + decimal_value M * 60 + decimal_value S), None)"
proof -
  have "LengthSec t
      = (word_of_nat (decimal_value H) * 60 * 60 + word_of_nat (decimal_value M) * 60
           + word_of_nat (decimal_value S), None)"
    unfolding LengthSec_def assms(8)
    by (simp only: Sscan3_fields [OF assms(1-7)] sum.case prod.case)
  then show ?thesis by simp
qed

lemma unat_word_of_nat_64: "unat (word_of_nat n :: uint64) = n mod 2 ^ 64"
  by (simp add: unat_of_nat)

lemma Length_track_with: "Length (track_with len intro) = len"
  by (simp add: track_with_def)

text \<open>
  Two lengths of three decimal fields that \<^verbatim>\<open>LengthSec\<close> reads without error and
  not as \<open>H * 3600 + M * 60 + S\<close>: the sum of the first is above \<open>2 ^ 64\<close> and wraps
  around; in the second \<^verbatim>\<open>Sscan\<close> takes the leading 0 of \<open>08\<close> for an octal prefix, reads
  the minutes as 0 and the 8 as the seconds, and never reads \<open>09\<close>.
\<close>

theorem LengthSec_wrong_counterexample:
  "LengthSec (track_with ''5124095576030432:0:0'' 0) = (3584, None)
   \<and> unat (3584 :: uint64) \<noteq> 5124095576030432 * 3600 + 0 * 60 + 0
   \<and> LengthSec (track_with ''0:08:09'' 0) = (8, None)
   \<and> unat (8 :: uint64) \<noteq> 0 * 3600 + 8 * 60 + 9"
  by (simp add: scan_eval)

text \<open>
  C3, amended. For every track whose \<open>Length\<close> is \<open>H:M:S\<close> with three fields of decimal
  digits, each below \<open>2 ^ 64\<close> and each either without a leading zero or made of zeros and
  one last digit from 0 to 7, \<^verbatim>\<open>LengthSec\<close> succeeds and returns
  \<open>H * 3600 + M * 60 + S\<close> reduced modulo \<open>2 ^ 64\<close>, which is the sum itself when that is
  below \<open>2 ^ 64\<close>; "1:02:03" gives 3723. Nothing is said here of a field that starts with
  0 and goes on otherwise, such as \<open>08\<close>.
\<close>

theorem LengthSec_decimal_fields:
  assumes "plain_field H" "plain_field M" "plain_field S"
    and "decimal_value H < 2 ^ 64" "decimal_value M < 2 ^ 64" "decimal_value S < 2 ^ 64"
    and "Length t = H @ '':'' @ M @ '':'' @ S"
  shows "\<exists>secs. LengthSec t = (secs, None)
     \<and> unat secs = (decimal_value H * 3600 + decimal_value M * 60 + decimal_value S) mod 2 ^ 64
     \<and> (decimal_value H * 3600 + decimal_value M * 60 + decimal_value S < 2 ^ 64
          \<longrightarrow> unat secs = decimal_value H * 3600 + decimal_value M * 60 + decimal_value S)"
proof -
  let ?n = "decimal_value H * 3600 + decimal_value M * 60 + decimal_value S"
  have "LengthSec t = (word_of_nat ?n, None)"
    using assms by (intro LengthSec_fields [where rest = "[]"]) (simp_all add: maxUint64_def)
  moreover have "unat (word_of_nat ?n :: uint64) = ?n mod 2 ^ 64"
    by (rule unat_word_of_nat_64)
  moreover have "?n < 2 ^ 64 \<longrightarrow> unat (word_of_nat ?n :: uint64) = ?n"
    by (metis unat_word_of_nat_64 mod_less)
  ultimately show ?thesis by blast
qed

theorem LengthSec_decimal_fields_witness:
  "plain_field ''1'' \<and> plain_field ''02'' \<and> plain_field ''03''
   \<and> decimal_value ''1'' = 1 \<and> decimal_value ''02'' = 2 \<and> decimal_value ''03'' = 3
   \<and> Length (track_with ''1:02:03'' 0) = ''1'' @ '':'' @ ''02'' @ '':'' @ ''03''
   \<and> LengthSec (track_with ''1:02:03'' 0) = (3723, None)"
  using LengthSec_decimal_fields [of "''1''" "''02''" "''03''" "track_with ''1:02:03'' 0"]
  by (simp add: plain_field_def decimal_value_def digit_of_def decimalDigits_def octalDigits_def
      LengthSec_example_1_02_03 Length_track_with)

text \<open>
  C4. The claim is that \<^verbatim>\<open>LengthSec\<close> fails exactly when the length, with its colons
  replaced by spaces, does not scan as exactly three integers. The source calls
  \<^verbatim>\<open>fmt.Sscan\<close> with three operands, drops the count it returns and tests only its error
  (lines 89 and 90), and \<^verbatim>\<open>Sscan\<close> reads nothing after its last operand: the ill-formed
  length "1:2:3:4" is read as 1:2:3 with no error, where the comment of the method says
  "Returns an error if the track's length is ill-formed". The two-field length "1:08"
  does not fail either: the leading 0 of \<open>08\<close> is read as an octal prefix, so the scan
  finds the three integers 1, 0 and 8.
\<close>

theorem LengthSec_ill_formed_no_error:
  "LengthSec (track_with ''1:2:3:4'' 0) = (3723, None)
   \<and> LengthSec (track_with ''1:08'' 0) = (3608, None)"
  by (simp add: scan_eval)

subsection \<open>\<^verbatim>\<open>IntroUsec\<close>\<close>

text \<open>
  The product is taken in \<^verbatim>\<open>uint64\<close>: an intro of 18446744073710 seconds gives
  448384 microseconds, not the product of the two numbers.
\<close>

theorem IntroUsec_exact_counterexample:
  "unat (IntroUsec (track_with ''0:03:00'' 18446744073710))
     \<noteq> unat (Intro (track_with ''0:03:00'' 18446744073710)) * 1000000"
  by (simp add: IntroUsec_def track_with_def)

text \<open>
  C8, amended. \<^verbatim>\<open>Track.IntroUsec\<close> has no error result, and for every track, an intro
  of zero included, it returns \<open>Intro * 1000000\<close> reduced modulo \<open>2 ^ 64\<close>; that is
  the product itself for every intro of at most 18446744073709 seconds.
\<close>

theorem IntroUsec_mod:
  "unat (IntroUsec t) = (unat (Intro t) * 1000000) mod 2 ^ 64
   \<and> (unat (Intro t) \<le> 18446744073709 \<longrightarrow> unat (IntroUsec t) = unat (Intro t) * 1000000)"
proof -
  have m: "unat (IntroUsec t) = (unat (Intro t) * 1000000) mod 2 ^ 64"
    by (simp add: IntroUsec_def unat_word_ariths)
  have "unat (Intro t) * 1000000 < 2 ^ 64" if "unat (Intro t) \<le> 18446744073709"
    using that by simp
  with m show ?thesis by simp
qed

theorem IntroUsec_mod_witness:
  "unat (Intro (track_with ''0:03:00'' 30)) \<le> 18446744073709
   \<and> unat (IntroUsec (track_with ''0:03:00'' 30)) = 30000000
   \<and> unat (IntroUsec (track_with ''0:03:00'' 0)) = 0"
  using IntroUsec_mod [of "track_with ''0:03:00'' 30"] IntroUsec_mod [of "track_with ''0:03:00'' 0"]
  by (simp add: track_with_def)

subsection \<open>\<^verbatim>\<open>LengthUsec\<close>\<close>

text \<open>
  A length of 18446744073710 seconds is read without error, and its microseconds
  wrap around.
\<close>

theorem LengthUsec_exact_counterexample:
  "LengthSec (track_with ''0:0:18446744073710'' 0) = (18446744073710, None)
   \<and> LengthUsec (track_with ''0:0:18446744073710'' 0) = (448384, None)
   \<and> unat (448384 :: uint64) \<noteq> unat (18446744073710 :: uint64) * 1000000"
  by (simp add: LengthUsec_def LengthSec_example_huge)

text \<open>
  C7, amended. For every track, when \<^verbatim>\<open>LengthSec\<close> succeeds with \<open>secs\<close>,
  \<^verbatim>\<open>LengthUsec\<close> succeeds with \<open>secs * 1000000\<close> reduced modulo \<open>2 ^ 64\<close>, which is
  the product itself when that is below \<open>2 ^ 64\<close>; when \<^verbatim>\<open>LengthSec\<close> fails,
  \<^verbatim>\<open>LengthUsec\<close> returns 0 and the very error of \<^verbatim>\<open>LengthSec\<close>.
\<close>

theorem LengthUsec_of_LengthSec:
  "(LengthSec t = (secs, None) \<longrightarrow>
      (\<exists>usecs. LengthUsec t = (usecs, None)
         \<and> unat usecs = (unat secs * 1000000) mod 2 ^ 64
         \<and> (unat secs * 1000000 < 2 ^ 64 \<longrightarrow> unat usecs = unat secs * 1000000)))
   \<and> (LengthSec t = (secs, Some err) \<longrightarrow> LengthUsec t = (0, Some err))"
  by (simp add: LengthUsec_def unat_word_ariths)

theorem LengthUsec_of_LengthSec_witness:
  "LengthSec (track_with ''1:02:03'' 0) = (3723, None)
   \<and> LengthUsec (track_with ''1:02:03'' 0) = (3723000000, None)
   \<and> LengthSec (track_with ''abc'' 0) = (0, Some (ScanError ExpectedInteger))
   \<and> LengthUsec (track_with ''abc'' 0) = (0, Some (ScanError ExpectedInteger))"
  using LengthUsec_of_LengthSec [of "track_with ''1:02:03'' 0" 3723 "ScanError ExpectedInteger"]
    LengthUsec_of_LengthSec [of "track_with ''abc'' 0" 0 "ScanError ExpectedInteger"]
  by (simp add: LengthSec_example_1_02_03 LengthSec_example_abc LengthUsec_def)

subsection \<open>The three requests\<close>

lemma decimal_42: "decimal 42 = ''42''"
  by (simp add: decimal.simps digit_char_def)

text \<open>
  C9. For every track id, \<^verbatim>\<open>GetTrack\<close>, \<^verbatim>\<open>GetTrackTitle\<close> and \<^verbatim>\<open>GetTrackAlbum\<close> each
  make exactly one request, to \<open>/track/{id}\<close>, \<open>/track/{id}/title\<close> and
  \<open>/track/{id}/album\<close>: the session's list of requests grows by that one path. When
  the payload is present and the decoder refuses it with an error, each returns that
  error as it is, with no value.
\<close>

theorem GetTrack_one_request_decode_error:
  "requests (snd (GetTrack UnmarshalTrack s trackid))
     = requests s @ [''/track/'' @ decimal (unat trackid)]
   \<and> requests (snd (GetTrackTitle UnmarshalString s trackid))
     = requests s @ [''/track/'' @ decimal (unat trackid) @ ''/title'']
   \<and> requests (snd (GetTrackAlbum UnmarshalAlbum s trackid))
     = requests s @ [''/track/'' @ decimal (unat trackid) @ ''/album'']
   \<and> (respond s (''/track/'' @ decimal (unat trackid)) = (Some d, None)
        \<and> snd (UnmarshalTrack d) = Some e
        \<longrightarrow> fst (GetTrack UnmarshalTrack s trackid) = Returns (None, Some (JSONError e)))
   \<and> (respond s (''/track/'' @ decimal (unat trackid) @ ''/title'') = (Some d, None)
        \<and> snd (UnmarshalString d) = Some e
        \<longrightarrow> fst (GetTrackTitle UnmarshalString s trackid) = Returns ('''', Some (JSONError e)))
   \<and> (respond s (''/track/'' @ decimal (unat trackid) @ ''/album'') = (Some d, None)
        \<and> snd (UnmarshalAlbum d) = Some e
        \<longrightarrow> fst (GetTrackAlbum UnmarshalAlbum s trackid) = Returns (None, Some (JSONError e)))"
  by (auto simp: GetTrack_def GetTrackTitle_def GetTrackAlbum_def apiRequest_def
      split: option.splits prod.splits)

theorem GetTrack_one_request_decode_error_witness:
  "requests (snd (GetTrack (\<lambda>d. (track_with '''' 0, Some ''unexpected end of JSON input''))
       (answering (Some ''{'', None)) 42)) = [''/track/42'']
   \<and> requests (snd (GetTrackTitle (\<lambda>d. ('''', Some ''unexpected end of JSON input''))
       (answering (Some ''{'', None)) 42)) = [''/track/42/title'']
   \<and> requests (snd (GetTrackAlbum (\<lambda>d. (zero_Album, Some ''unexpected end of JSON input''))
       (answering (Some ''{'', None)) 42)) = [''/track/42/album'']
   \<and> fst (GetTrack (\<lambda>d. (track_with '''' 0, Some ''unexpected end of JSON input''))
       (answering (Some ''{'', None)) 42)
     = Returns (None, Some (JSONError ''unexpected end of JSON input''))
   \<and> fst (GetTrackTitle (\<lambda>d. ('''', Some ''unexpected end of JSON input''))
       (answering (Some ''{'', None)) 42)
     = Returns ('''', Some (JSONError ''unexpected end of JSON input''))
   \<and> fst (GetTrackAlbum (\<lambda>d. (zero_Album, Some ''unexpected end of JSON input''))
       (answering (Some ''{'', None)) 42)
     = Returns (None, Some (JSONError ''unexpected end of JSON input''))"
  using GetTrack_one_request_decode_error
    [of "\<lambda>d. (track_with '''' 0, Some ''unexpected end of JSON input'')"
        "answering (Some ''{'', None)" 42
        "\<lambda>d. ('''', Some ''unexpected end of JSON input'')"
        "\<lambda>d. (zero_Album, Some ''unexpected end of JSON input'')"
        "''{''" "''unexpected end of JSON input''"]
  by (simp add: answering_def decimal_42)

section \<open>Properties of \<^verbatim>\<open>user.go\<close>\<close>

subsection \<open>\<^verbatim>\<open>GetUserBio\<close>\<close>

text \<open>
  C2. For every id, \<^verbatim>\<open>GetUserBio\<close> returns the error "No bio set" if and only if the
  transport call succeeds with an absent (nil) payload, the bio then being empty. A
  payload that is present is decoded, and the call returns what the decoder returns;
  so the payload \<open>""\<close>, which decodes to the empty string, gives the empty string and
  no error.
\<close>

theorem GetUserBio_no_bio_iff:
  "(fst (GetUserBio Unmarshal s id') = Returns (bio, Some (ErrorsNew ''No bio set''))
      \<longleftrightarrow> bio = '''' \<and> respond s (''/user/'' @ Sprintf_d id' @ ''/bio/'') = (None, None))
   \<and> (respond s (''/user/'' @ Sprintf_d id' @ ''/bio/'') = (Some d, None)
        \<longrightarrow> fst (GetUserBio Unmarshal s id')
            = Returns (fst (Unmarshal d), map_option JSONError (snd (Unmarshal d))))
   \<and> (respond s (''/user/'' @ Sprintf_d id' @ ''/bio/'') = (Some json_empty_string, None)
        \<and> Unmarshal json_empty_string = ('''', None)
        \<longrightarrow> fst (GetUserBio Unmarshal s id') = Returns ('''', None))"
  by (auto simp: GetUserBio_def apiRequest_def split: option.splits prod.splits)

theorem GetUserBio_no_bio_iff_witness:
  "fst (GetUserBio (\<lambda>d. (d, None)) (answering (None, None)) 7)
     = Returns ('''', Some (ErrorsNew ''No bio set''))
   \<and> fst (GetUserBio (\<lambda>d. (if d = json_empty_string then '''' else ''?'', None))
            (answering (Some json_empty_string, None)) 7) = Returns ('''', None)
   \<and> fst (GetUserBio (\<lambda>d. (d, None)) (answering (None, Some ''timeout'')) 7)
     = Returns ('''', Some (TransportError ''timeout''))"
  using GetUserBio_no_bio_iff [of "\<lambda>d. (d, None)" "answering (None, None)" 7 "''''" json_empty_string]
    GetUserBio_no_bio_iff [of "\<lambda>d. (if d = json_empty_string then '''' else ''?'', None)"
      "answering (Some json_empty_string, None)" 7 "''''" json_empty_string]
    GetUserBio_no_bio_iff [of "\<lambda>d. (d, None)" "answering (None, Some ''timeout'')" 7 "''''"
      json_empty_string]
  by (simp add: answering_def GetUserBio_def apiRequest_def)

subsection \<open>\<^verbatim>\<open>GetUserName\<close>\<close>

text \<open>
  C5. When the transport call inside \<^verbatim>\<open>GetUserName\<close> succeeds with a nil payload, the
  claim is that the call returns a decode error and dereferences no nil pointer. The
  source dereferences \<^verbatim>\<open>data\<close> with no test (line 47), where \<^verbatim>\<open>GetUserBio\<close> and
  \<^verbatim>\<open>GetUserProfilePhoto\<close> test it first: the call panics and returns nothing.
\<close>

theorem GetUserName_nil_payload_panics:
  "fst (GetUserName (\<lambda>d. (d, None)) (answering (None, None)) 7) = NilDereference"
  by (simp add: GetUserName_def apiRequest_def answering_def)

subsection \<open>\<^verbatim>\<open>GetUserProfilePhoto\<close>\<close>

lemmas time_eval = time_Parse_def parse_2006_01_02_def parse_02_01_2006_15_04_def isDigit_def
  decimalDigits_def atoi4_def digit_of_def getnum_def daysIn_def isLeap_def cutspace_def

lemma time_Parse_15_06_2021:
  "time_Parse ''02/01/2006 15:04'' ''15/06/2021 13:45''
     = (\<lparr>Year = 2021, Month = 6, Day = 15, Hour = 13, Minute = 45, Second = 0, Nanosecond = 0\<rparr>,
        None)"
  by (simp add: time_eval)

lemma time_Parse_yesterday:
  "time_Parse ''02/01/2006 15:04'' ''yesterday''
     = (zero_Time, Some (TimeParseError ''02/01/2006 15:04'' ''yesterday''))"
  by (simp add: time_eval)

text \<open>
  C6. For every id, \<^verbatim>\<open>GetUserProfilePhoto\<close> returns the error "No profile picture set"
  when the transport returns a nil payload. When the payload decodes without error, the
  photo returned is the decoded one with \<open>DateAdded\<close> set to what \<^verbatim>\<open>time.Parse\<close> with
  layout \<^verbatim>\<open>"02/01/2006 15:04"\<close> returns for its \<open>DateAddedRaw\<close>, and the error is the
  error of that parse: "15/06/2021 13:45" parses to 2021-06-15 13:45, and a raw date
  that does not parse makes the call return that \<^verbatim>\<open>ParseError\<close>.
\<close>

theorem GetUserProfilePhoto_date_added:
  "(respond s (''/user/'' @ Sprintf_d id' @ ''/profilephoto/'') = (None, None)
      \<longrightarrow> fst (GetUserProfilePhoto Unmarshal s id')
          = Returns (zero_Photo, Some (ErrorsNew ''No profile picture set'')))
   \<and> (respond s (''/user/'' @ Sprintf_d id' @ ''/profilephoto/'') = (Some d, None)
        \<and> Unmarshal d = (photo, None)
      \<longrightarrow> fst (GetUserProfilePhoto Unmarshal s id')
          = Returns (photo\<lparr>DateAdded := fst (time_Parse ''02/01/2006 15:04'' (DateAddedRaw photo))\<rparr>,
                     snd (time_Parse ''02/01/2006 15:04'' (DateAddedRaw photo))))
   \<and> (respond s (''/user/'' @ Sprintf_d id' @ ''/profilephoto/'') = (Some d, None)
        \<and> Unmarshal d = (photo, None)
        \<and> parse_02_01_2006_15_04 (DateAddedRaw photo) = None
      \<longrightarrow> fst (GetUserProfilePhoto Unmarshal s id')
          = Returns (photo\<lparr>DateAdded := zero_Time\<rparr>,
                     Some (TimeParseError ''02/01/2006 15:04'' (DateAddedRaw photo))))
   \<and> time_Parse ''02/01/2006 15:04'' ''15/06/2021 13:45''
       = (\<lparr>Year = 2021, Month = 6, Day = 15, Hour = 13, Minute = 45, Second = 0, Nanosecond = 0\<rparr>,
          None)"
  by (auto simp: GetUserProfilePhoto_def apiRequest_def time_Parse_15_06_2021
      split: option.splits prod.splits)
     (simp_all add: time_Parse_def)

theorem GetUserProfilePhoto_date_added_witness:
  "fst (GetUserProfilePhoto (\<lambda>d. (photo_with d, None)) (answering (None, None)) 7)
     = Returns (zero_Photo, Some (ErrorsNew ''No profile picture set''))
   \<and> fst (GetUserProfilePhoto (\<lambda>d. (photo_with d, None))
            (answering (Some ''15/06/2021 13:45'', None)) 7)
     = Returns ((photo_with ''15/06/2021 13:45'')
          \<lparr>DateAdded := \<lparr>Year = 2021, Month = 6, Day = 15, Hour = 13, Minute = 45, Second = 0,
             Nanosecond = 0\<rparr>\<rparr>, None)
   \<and> fst (GetUserProfilePhoto (\<lambda>d. (photo_with d, None)) (answering (Some ''yesterday'', None)) 7)
     = Returns ((photo_with ''yesterday'')\<lparr>DateAdded := zero_Time\<rparr>,
          Some (TimeParseError ''02/01/2006 15:04'' ''yesterday''))"
  using GetUserProfilePhoto_date_added
      [of "answering (None, None)" 7 "\<lambda>d. (photo_with d, None)" "''x''" "photo_with ''x''"]
    GetUserProfilePhoto_date_added
      [of "answering (Some ''15/06/2021 13:45'', None)" 7 "\<lambda>d. (photo_with d, None)"
          "''15/06/2021 13:45''" "photo_with ''15/06/2021 13:45''"]
    GetUserProfilePhoto_date_added
      [of "answering (Some ''yesterday'', None)" 7 "\<lambda>d. (photo_with d, None)"
          "''yesterday''" "photo_with ''yesterday''"]
  by (simp add: answering_def photo_with_def time_Parse_15_06_2021 time_Parse_yesterday)

subsection \<open>\<^verbatim>\<open>GetUserOfficerships\<close>\<close>

lemma time_Parse_empty:
  "time_Parse ''2006-01-02'' '''' = (zero_Time, Some (TimeParseError ''2006-01-02'' ''''))"
  by (simp add: time_eval)

lemma time_Parse_error_zero:
  "snd (time_Parse layout v) = Some e \<Longrightarrow> fst (time_Parse layout v) = zero_Time"
  by (auto simp: time_Parse_def split: option.splits)

lemma officership_body_entry:
  assumes "k < length officerships"
  shows "officership_body k officerships =
    (case entry_error (officerships ! k) of
       Some e \<Rightarrow> (officerships[k := failed (officerships ! k)], Some e)
     | None \<Rightarrow> (officerships[k := normalised (officerships ! k)], None))"
proof (cases "FromDateRaw (officerships ! k) = ''''")
  case True
  with assms show ?thesis
    by (auto simp: officership_body_def entry_error_def normalised_def failed_def
        time_Parse_empty list_update_same_conv split: option.splits)
next
  case False
  obtain t err where p: "time_Parse ''2006-01-02'' (FromDateRaw (officerships ! k)) = (t, err)"
    by (cases "time_Parse ''2006-01-02'' (FromDateRaw (officerships ! k))")
  show ?thesis
  proof (cases err)
    case None
    with False p assms show ?thesis
      by (auto simp: officership_body_def entry_error_def normalised_def failed_def
          split: option.splits)
  next
    case (Some e)
    with p have "t = zero_Time"
      using time_Parse_error_zero [of "''2006-01-02''" "FromDateRaw (officerships ! k)" e] by simp
    with Some False p assms show ?thesis
      by (auto simp: officership_body_def entry_error_def normalised_def failed_def
          split: option.splits)
  qed
qed

lemma officerships_range_normalise_all:
  "k \<le> length officerships \<Longrightarrow>
   officerships_range k (length officerships) officerships
     = (take k officerships @ fst (normalise_all (drop k officerships)),
        snd (normalise_all (drop k officerships)))"
proof (induction "length officerships - k" arbitrary: k officerships)
  case 0
  then show ?case by (simp add: officerships_range.simps)
next
  case (Suc m)
  then have k: "k < length officerships" by simp
  then have d: "drop k officerships = officerships ! k # drop (Suc k) officerships"
    by (simp add: Cons_nth_drop_Suc)
  show ?case
  proof (cases "entry_error (officerships ! k)")
    case (Some e)
    with k d show ?thesis
      by (simp add: officerships_range.simps [of k] officership_body_entry upd_conv_take_nth_drop)
  next
    case None
    let ?os = "officerships[k := normalised (officerships ! k)]"
    have "m = length ?os - Suc k" using Suc.hyps(2) by simp
    moreover have "Suc k \<le> length ?os" using k by simp
    ultimately have
      "officerships_range (Suc k) (length ?os) ?os
         = (take (Suc k) ?os @ fst (normalise_all (drop (Suc k) ?os)),
            snd (normalise_all (drop (Suc k) ?os)))"
      by (rule Suc.hyps(1))
    with None k d show ?thesis
      by (simp add: officerships_range.simps [of k] officership_body_entry
          take_Suc_conv_app_nth)
  qed
qed


lemma GetUserOfficerships_decoded:
  assumes "respond s (''/user/'' @ Sprintf_d id' @ ''/officerships/'') = (Some d, None)"
    and "Unmarshal d = (decoded, None)"
  shows "fst (GetUserOfficerships Unmarshal s id') = Returns (normalise_all decoded)"
  using assms officerships_range_normalise_all [of 0 decoded]
  by (simp add: GetUserOfficerships_def apiRequest_def)

lemma time_Parse_2020_01_01: "time_Parse ''2006-01-02'' ''2020-01-01'' = (date 2020 1 1, None)"
  by (simp add: time_eval date_def)

lemma time_Parse_2021_06_30: "time_Parse ''2006-01-02'' ''2021-06-30'' = (date 2021 6 30, None)"
  by (simp add: time_eval date_def)


text \<open>
  The example of the specification: one entry with \<open>from_date = "2020-01-01"\<close> and an empty
  \<open>till_date\<close> gets the derived from-date 2020-01-01 and keeps the zero till-date.
\<close>

lemma GetUserOfficerships_from_only:
  "fst (GetUserOfficerships (\<lambda>d. ([officership_with ''2020-01-01'' ''''], None))
          (answering (Some ''[]'', None)) 7)
     = Returns ([(officership_with ''2020-01-01'' '''')\<lparr>FromDate := date 2020 1 1\<rparr>], None)"
  by (simp add: GetUserOfficerships_decoded [of _ _ "''[]''" _ "[officership_with ''2020-01-01'' '''']"]
      answering_def entry_error_def normalised_def officership_with_def time_Parse_2020_01_01)

text \<open>
  C1. The claim is that each derived date is the parse of its own raw string when that
  string is non-empty, and stays zero when it is empty. The from-date is so. The
  till-date is not: line 85 of the source parses \<^verbatim>\<open>v.FromDateRaw\<close> where line 79 does,
  so an entry from 2020-01-01 till 2021-06-30 gets the till-date 2020-01-01, and an entry
  with no from-date and the till-date 2021-06-30 makes the call fail on parsing the
  empty string.
\<close>

theorem GetUserOfficerships_till_date_from_raw:
  "fst (GetUserOfficerships (\<lambda>d. ([officership_with ''2020-01-01'' ''2021-06-30''], None))
          (answering (Some ''[]'', None)) 7)
     = Returns ([(officership_with ''2020-01-01'' ''2021-06-30'')
                   \<lparr>FromDate := date 2020 1 1, TillDate := date 2020 1 1\<rparr>], None)
   \<and> time_Parse ''2006-01-02'' ''2021-06-30'' = (date 2021 6 30, None)
   \<and> date 2021 6 30 \<noteq> date 2020 1 1
   \<and> fst (GetUserOfficerships (\<lambda>d. ([officership_with '''' ''2021-06-30''], None))
          (answering (Some ''[]'', None)) 7)
     = Returns ([officership_with '''' ''2021-06-30''],
                Some (TimeParseError ''2006-01-02'' ''''))"
  by (simp add: GetUserOfficerships_decoded [of _ _ "''[]''"] answering_def entry_error_def
      normalised_def failed_def officership_with_def time_Parse_2020_01_01 time_Parse_2021_06_30
      time_Parse_empty date_def)




end
